theory Spec2Isabelle
  imports Main
begin

section \<open>Values and props objects\<close>

text \<open>
  A props object is a JavaScript object: a finite map from property names to values.
  An absent key and a key bound to \<open>undefined\<close> read the same (\<open>None\<close>).
  The type parameter \<open>'o\<close> is the option data \<open>T\<close>, \<open>'c\<close> is the collection
  (\<open>Collection<CollectionNode<T>>\<close>), whose declaration is outside the two source files.
\<close>

datatype error = TypeError | Thrown string

type_synonym HTMLElement = string
type_synonym JSX_Element = string

record SelectionManager =
  selectionMode :: string

record 'c ListState =
  collection :: 'c
  selectionManager :: SelectionManager

text \<open>
  \<open>VFn\<close> is a function or object that the components only pass on (event handlers,
  \<open>onValueChange\<close>, option accessors, keyboard delegate, refs): its identity is all
  that matters. \<open>VChildren\<close> and \<open>VAccessor\<close> are the two user functions the listbox
  calls itself: the render function \<open>children\<close> and the nullary \<open>scrollRef\<close> (given by
  the outcome of calling it); either may throw.
\<close>

datatype ('o, 'c) val =
    VBool bool
  | VNum int
  | VStr string
  | VKeys "string list"
  | VOptions "'o list"
  | VState "'c ListState"
  | VFn string
  | VChildren "'c \<Rightarrow> error + JSX_Element"
  | VAccessor "error + HTMLElement option"

type_synonym ('o, 'c) props = "string \<rightharpoonup> ('o, 'c) val"

text \<open>JavaScript truthiness, as tested by \<open>if (local.state)\<close>.\<close>

fun truthy :: "('o, 'c) val \<Rightarrow> bool" where
  "truthy (VBool b) = b"
| "truthy (VNum n) = (n \<noteq> 0)"
| "truthy (VStr s) = (s \<noteq> [])"
| "truthy _ = True"

section \<open>Framework primitives\<close>

text \<open>
  \<open>mergeProps\<close> of solid-js on two sources: for every key the last source whose value
  is defined wins. It is what \<open>mergeDefaultProps(defaults, props)\<close> computes and what a
  JSX spread \<open><X a={..} {...others} />\<close> compiles to.
\<close>

definition mergeProps :: "('o, 'c) props \<Rightarrow> ('o, 'c) props \<Rightarrow> ('o, 'c) props" where
  "mergeProps a b = (\<lambda>k. case b k of Some v \<Rightarrow> Some v | None \<Rightarrow> a k)"

text \<open>
  Modelled from the spec: \<open>mergeDefaultProps\<close> is imported from \<open>@kobalte/utils\<close> and
  is not among the source files; the spec only names it among the prop-merging
  utilities. It is taken to be \<open>mergeProps(defaultProps, props)\<close>: a prop the caller
  supplies wins over the default of the same name.
\<close>

definition mergeDefaultProps :: "('o, 'c) props \<Rightarrow> ('o, 'c) props \<Rightarrow> ('o, 'c) props" where
  "mergeDefaultProps defaultProps props = mergeProps defaultProps props"

text \<open>\<open>splitProps(props, keys)\<close> of solid-js: the listed keys, and all the others.\<close>

definition splitProps ::
  "('o, 'c) props \<Rightarrow> string list \<Rightarrow> ('o, 'c) props \<times> ('o, 'c) props" where
  "splitProps props keys =
     ((\<lambda>k. if k \<in> set keys then props k else None),
      (\<lambda>k. if k \<in> set keys then None else props k))"

text \<open>
  The argument objects of \<open>createListState\<close> and \<open>createSelectableList\<close>. Every field
  of the source is an accessor \<open>() => e\<close>; the record holds what the accessor returns.
\<close>

record ('o, 'c) ListStateProps =
  selectedKeys :: "('o, 'c) val option"
  defaultSelectedKeys :: "('o, 'c) val option"
  onSelectionChange :: "('o, 'c) val option"
  allowDuplicateSelectionEvents :: "('o, 'c) val option"
  disallowEmptySelection :: "('o, 'c) val option"
  selectionBehavior :: "('o, 'c) val option"
  selectionMode_p :: "('o, 'c) val option"
  dataSource :: "('o, 'c) val"
  getKey :: "('o, 'c) val option"
  getTextValue :: "('o, 'c) val option"
  getIsDisabled :: "('o, 'c) val option"
  getSectionChildren :: "('o, 'c) val option"
  getIsSection :: "('o, 'c) val option"

record ('o, 'c) SelectableListProps =
  selectionManager_sl :: SelectionManager
  collection_sl :: 'c
  autoFocus :: "('o, 'c) val option"
  shouldFocusWrap :: "('o, 'c) val option"
  keyboardDelegate :: "('o, 'c) val option"
  disallowEmptySelection_sl :: "('o, 'c) val option"
  selectOnFocus :: "('o, 'c) val option"
  disallowTypeAhead :: "('o, 'c) val option"
  shouldUseVirtualFocus :: "('o, 'c) val option"
  allowsTabNavigation :: "('o, 'c) val option"
  isVirtualized :: "('o, 'c) val option"
  scrollToKey :: "('o, 'c) val option"
  scrollRef_sl :: "error + HTMLElement option"

record ('o, 'c) SelectableList =
  tabIndex :: "('o, 'c) val option"
  onKeyDown :: "('o, 'c) val"
  onMouseDown :: "('o, 'c) val"
  onFocusIn :: "('o, 'c) val"
  onFocusOut :: "('o, 'c) val"

text \<open>
  The functions imported from \<open>../list\<close>, \<open>@kobalte/utils\<close> and solid-js whose bodies are
  not among the source files are parameters of the model.
\<close>

record ('o, 'c) Framework =
  createListState :: "('o, 'c) ListStateProps \<Rightarrow> 'c ListState"
  createSelectableList :: "('o, 'c) SelectableListProps \<Rightarrow> ('o, 'c) SelectableList"
  composeEventHandlers :: "('o, 'c) val option list \<Rightarrow> ('o, 'c) val"
  mergeRefs :: "('o, 'c) val option list \<Rightarrow> ('o, 'c) val"
  access :: "('o, 'c) val option \<Rightarrow> ('o, 'c) val option"
  createGenerateId :: "('o, 'c) val option \<Rightarrow> ('o, 'c) val"
  isAs :: "JSX_Element \<Rightarrow> bool"
  Dynamic :: "('o, 'c) props \<Rightarrow> JSX_Element option \<Rightarrow> JSX_Element"

text \<open>
  Modelled from the spec: \<open>Polymorphic\<close> is imported from \<open>../polymorphic\<close> and is not
  among the source files; the spec only names polymorphic element rendering among the
  framework primitives. It is taken as the component behaves: without \<open>asChild\<close> it
  renders its props and children on the fallback element; with \<open>asChild\<close> it renders
  on the \<open>As\<close> component found among its children, and throws when there is none (in
  particular when there are no children). \<open>isAs\<close> tells whether the children are, or
  contain, an \<open>As\<close> component, and \<open>Dynamic\<close> is the rendering itself; both are
  parameters.
\<close>

definition Polymorphic ::
  "('o, 'c) Framework \<Rightarrow> ('o, 'c) props \<Rightarrow> JSX_Element option \<Rightarrow> error + JSX_Element" where
  "Polymorphic fw props ch =
     (if (case props ''asChild'' of Some v \<Rightarrow> truthy v | None \<Rightarrow> False)
      then (if (case ch of Some j \<Rightarrow> isAs fw j | None \<Rightarrow> False)
            then Inr (Dynamic fw props ch)
            else Inl (Thrown ''asChild: no As component was found among the children''))
      else Inr (Dynamic fw props ch))"

section \<open>ListboxRoot\<close>

record ('o, 'c) ListboxContextValue =
  listState_c :: "('o, 'c) val"
  generateId :: "('o, 'c) val"
  shouldUseVirtualFocus_c :: "('o, 'c) val option"
  shouldSelectOnPressUp :: "('o, 'c) val option"
  shouldFocusOnHover :: "('o, 'c) val option"
  isVirtualized_c :: "('o, 'c) val option"

text \<open>
  What one run of \<open>ListboxRoot\<close> produces: the context value it provides, the props it
  hands to \<open>Polymorphic\<close> (the attributes of the root element), the rendered children,
  the argument of \<open>createListState\<close> if it was invoked, the argument of
  \<open>createSelectableList\<close>, and what \<open>Polymorphic\<close> renders.
\<close>

record ('o, 'c) Rendered =
  context_value :: "('o, 'c) ListboxContextValue"
  element :: "('o, 'c) props"
  children :: "JSX_Element option"
  createdWith :: "('o, 'c) ListStateProps option"
  selectableWith :: "('o, 'c) SelectableListProps"
  rendering :: JSX_Element

definition defaultId :: "string \<Rightarrow> string" where
  "defaultId uid = ''listbox-'' @ uid"

definition ListboxRoot_defaults :: "string \<Rightarrow> ('o, 'c) props" where
  "ListboxRoot_defaults uid =
     Map.empty(''id'' \<mapsto> VStr (defaultId uid),
               ''selectionMode'' \<mapsto> VStr ''single'',
               ''isVirtualized'' \<mapsto> VBool False)"

definition ListboxRoot_keys :: "string list" where
  "ListboxRoot_keys =
     [''ref'', ''children'', ''value'', ''defaultValue'', ''onValueChange'', ''options'',
      ''optionValue'', ''optionTextValue'', ''optionDisabled'', ''optionGroupChildren'',
      ''isOptionGroup'', ''state'', ''keyboardDelegate'', ''autoFocus'', ''selectionMode'',
      ''shouldFocusWrap'', ''shouldUseVirtualFocus'', ''shouldSelectOnPressUp'',
      ''shouldFocusOnHover'', ''allowDuplicateSelectionEvents'', ''disallowEmptySelection'',
      ''selectionBehavior'', ''selectOnFocus'', ''disallowTypeAhead'', ''allowsTabNavigation'',
      ''isVirtualized'', ''scrollToItem'', ''scrollRef'', ''onKeyDown'', ''onMouseDown'',
      ''onFocusIn'', ''onFocusOut'']"

text \<open>The object literal passed to \<open>createListState\<close>; \<open>options ?? []\<close> is the data source.\<close>

definition listStateProps ::
  "('o, 'c) Framework \<Rightarrow> ('o, 'c) props \<Rightarrow> ('o, 'c) ListStateProps" where
  "listStateProps fw local =
     \<lparr> selectedKeys = local ''value'',
       defaultSelectedKeys = local ''defaultValue'',
       onSelectionChange = local ''onValueChange'',
       allowDuplicateSelectionEvents = access fw (local ''allowDuplicateSelectionEvents''),
       disallowEmptySelection = access fw (local ''disallowEmptySelection''),
       selectionBehavior = access fw (local ''selectionBehavior''),
       selectionMode_p = access fw (local ''selectionMode''),
       dataSource = (case local ''options'' of Some v \<Rightarrow> v | None \<Rightarrow> VOptions []),
       getKey = local ''optionValue'',
       getTextValue = local ''optionTextValue'',
       getIsDisabled = local ''optionDisabled'',
       getSectionChildren = local ''optionGroupChildren'',
       getIsSection = local ''isOptionGroup'' \<rparr>"

text \<open>
  The memo \<open>listState\<close>: the value it returns, and the argument \<open>createListState\<close> was
  invoked with (\<open>None\<close> when it was not invoked).
\<close>

definition listState ::
  "('o, 'c) Framework \<Rightarrow> ('o, 'c) props \<Rightarrow> ('o, 'c) val \<times> ('o, 'c) ListStateProps option" where
  "listState fw local =
     (let cfg = listStateProps fw local;
          created = (VState (createListState fw cfg), Some cfg)
      in case local ''state'' of
           None \<Rightarrow> created
         | Some s \<Rightarrow> if truthy s then (s, None) else created)"

text \<open>\<open>local.scrollRef?.()\<close> and \<open>local.children?.(listState().collection)\<close>.\<close>

fun call_scrollRef :: "('o, 'c) val option \<Rightarrow> error + HTMLElement option" where
  "call_scrollRef None = Inr None"
| "call_scrollRef (Some (VAccessor r)) = r"
| "call_scrollRef (Some _) = Inl TypeError"

fun call_children :: "('o, 'c) val option \<Rightarrow> 'c \<Rightarrow> error + JSX_Element option" where
  "call_children None c = Inr None"
| "call_children (Some (VChildren f)) c =
     (case f c of Inl e \<Rightarrow> Inl e | Inr j \<Rightarrow> Inr (Some j))"
| "call_children (Some _) c = Inl TypeError"

definition selectableListProps ::
  "('o, 'c) Framework \<Rightarrow> ('o, 'c) props \<Rightarrow> 'c ListState \<Rightarrow> ('o, 'c) SelectableListProps" where
  "selectableListProps fw local ls =
     \<lparr> selectionManager_sl = selectionManager ls,
       collection_sl = collection ls,
       autoFocus = access fw (local ''autoFocus''),
       shouldFocusWrap = access fw (local ''shouldFocusWrap''),
       keyboardDelegate = local ''keyboardDelegate'',
       disallowEmptySelection_sl = access fw (local ''disallowEmptySelection''),
       selectOnFocus = access fw (local ''selectOnFocus''),
       disallowTypeAhead = access fw (local ''disallowTypeAhead''),
       shouldUseVirtualFocus = access fw (local ''shouldUseVirtualFocus''),
       allowsTabNavigation = access fw (local ''allowsTabNavigation''),
       isVirtualized = local ''isVirtualized'',
       scrollToKey = local ''scrollToItem'',
       scrollRef_sl = call_scrollRef (local ''scrollRef'') \<rparr>"

text \<open>
  The attributes written on \<open><Polymorphic>\<close> before the spread. An attribute whose
  expression is \<open>undefined\<close> is absent.
\<close>

definition rootAttrs ::
  "('o, 'c) Framework \<Rightarrow> ('o, 'c) props \<Rightarrow> 'c ListState \<Rightarrow> ('o, 'c) SelectableList
     \<Rightarrow> ('o, 'c) props" where
  "rootAttrs fw local ls sl =
     Map.empty
       (''fallback'' := Some (VStr ''ul''),
        ''ref'' := Some (mergeRefs fw [Some (VFn ''el => (ref = el)''), local ''ref'']),
        ''role'' := Some (VStr ''listbox''),
        ''tabIndex'' := tabIndex sl,
        ''aria-multiselectable'' :=
           (if selectionMode (selectionManager ls) = ''multiple'' then Some (VBool True) else None),
        ''onKeyDown'' := Some (composeEventHandlers fw [local ''onKeyDown'', Some (onKeyDown sl)]),
        ''onMouseDown'' :=
           Some (composeEventHandlers fw [local ''onMouseDown'', Some (onMouseDown sl)]),
        ''onFocusIn'' := Some (composeEventHandlers fw [local ''onFocusIn'', Some (onFocusIn sl)]),
        ''onFocusOut'' :=
           Some (composeEventHandlers fw [local ''onFocusOut'', Some (onFocusOut sl)]))"

text \<open>
  \<open>ListboxRoot(props)\<close>; \<open>uid\<close> is what \<open>createUniqueId()\<close> returns for this instance.
  Reading \<open>selectionManager\<close> or \<open>collection\<close> of a list state that is not a
  \<open>ListState\<close> object throws, as does a render function that throws, and as does
  \<open>Polymorphic\<close> when \<open>asChild\<close> is set and the children hold no \<open>As\<close> component.
\<close>

definition ListboxRoot ::
  "('o, 'c) Framework \<Rightarrow> string \<Rightarrow> ('o, 'c) props \<Rightarrow> error + ('o, 'c) Rendered" where
  "ListboxRoot fw uid props0 =
     (let props = mergeDefaultProps (ListboxRoot_defaults uid) props0;
          (local, others) = splitProps props ListboxRoot_keys;
          (lsv, created) = listState fw local
      in case lsv of
           VState ls \<Rightarrow>
             (let selectableList = createSelectableList fw (selectableListProps fw local ls);
                  ctx = \<lparr> listState_c = lsv,
                          generateId = createGenerateId fw (others ''id''),
                          shouldUseVirtualFocus_c = props ''shouldUseVirtualFocus'',
                          shouldSelectOnPressUp = props ''shouldSelectOnPressUp'',
                          shouldFocusOnHover = props ''shouldFocusOnHover'',
                          isVirtualized_c = local ''isVirtualized'' \<rparr>
              in case call_children (local ''children'') (collection ls) of
                   Inl e \<Rightarrow> Inl e
                 | Inr ch \<Rightarrow>
                     (case Polymorphic fw
                             (mergeProps (rootAttrs fw local ls selectableList) others) ch of
                        Inl e \<Rightarrow> Inl e
                      | Inr out \<Rightarrow>
                          Inr \<lparr> context_value = ctx,
                                element = mergeProps (rootAttrs fw local ls selectableList) others,
                                children = ch,
                                createdWith = created,
                                selectableWith = selectableListProps fw local ls,
                                rendering = out \<rparr>))
         | _ \<Rightarrow> Inl TypeError)"

section \<open>SelectListbox\<close>

text \<open>
  The select context read by \<open>SelectListbox\<close> (\<open>useSelectContext()\<close>); each field holds
  what the accessor of that name returns. Its declaration is outside the source files.
\<close>

record ('o, 'c) SelectContext =
  generateId_s :: "string \<Rightarrow> string"
  listState_s :: "'c ListState"
  isVirtualized_s :: "('o, 'c) val option"
  autoFocus_s :: "('o, 'c) val option"
  setListboxRef :: "('o, 'c) val"
  listboxAriaLabelledBy :: "('o, 'c) val option"

text \<open>\<open>[local, others]\<close> of \<open>SelectListbox\<close>, after the default id is merged in.\<close>

definition SelectListbox_split ::
  "('o, 'c) SelectContext \<Rightarrow> ('o, 'c) props \<Rightarrow> ('o, 'c) props \<times> ('o, 'c) props" where
  "SelectListbox_split ctx props0 =
     splitProps
       (mergeDefaultProps (Map.empty(''id'' \<mapsto> VStr (generateId_s ctx ''listbox''))) props0)
       [''ref'', ''id'']"

text \<open>The props \<open>SelectListbox\<close> hands to \<open>Listbox.Root\<close>: its attributes, then the spread.\<close>

definition SelectListbox_props ::
  "('o, 'c) SelectContext \<Rightarrow> ('o, 'c) Framework \<Rightarrow> ('o, 'c) props \<Rightarrow> ('o, 'c) props" where
  "SelectListbox_props ctx fw props0 =
     (let (local, others) = SelectListbox_split ctx props0
      in mergeProps
           (Map.empty
              (''ref'' := Some (mergeRefs fw [Some (setListboxRef ctx), local ''ref'']),
               ''id'' := local ''id'',
               ''state'' := Some (VState (listState_s ctx)),
               ''isVirtualized'' := isVirtualized_s ctx,
               ''autoFocus'' := autoFocus_s ctx,
               ''shouldSelectOnPressUp'' := Some (VBool True),
               ''shouldFocusOnHover'' := Some (VBool True),
               ''aria-labelledby'' := listboxAriaLabelledBy ctx))
           others)"

definition SelectListbox ::
  "('o, 'c) SelectContext \<Rightarrow> ('o, 'c) Framework \<Rightarrow> string \<Rightarrow> ('o, 'c) props
     \<Rightarrow> error + ('o, 'c) Rendered" where
  "SelectListbox ctx fw uid props0 = ListboxRoot fw uid (SelectListbox_props ctx fw props0)"

subsection \<open>The registration effect\<close>

type_synonym ('o, 'c) registry = "('o, 'c) val option"

text \<open>
  Modelled from the spec: \<open>registerListboxId\<close> belongs to the select context, which is
  not among the source files, and the spec says of it only that the id is registered
  with the select context and that the registration is removed on cleanup. It stores
  the id as the context's listbox id and returns the function that removes it.
\<close>

definition registerListboxId ::
  "('o, 'c) val option \<Rightarrow> ('o, 'c) registry
     \<Rightarrow> ('o, 'c) registry \<times> (('o, 'c) registry \<Rightarrow> ('o, 'c) registry)" where
  "registerListboxId ident reg = (ident, (\<lambda>r. None))"

text \<open>
  A mounted \<open>SelectListbox\<close>: the listbox id registered in the select context, and the
  functions the current run of the effect passed to \<open>onCleanup\<close>.
\<close>

record ('o, 'c) Mounted =
  listboxId :: "('o, 'c) registry"
  cleanups :: "(('o, 'c) registry \<Rightarrow> ('o, 'c) registry) list"

definition unmounted :: "('o, 'c) Mounted" where
  "unmounted = \<lparr> listboxId = None, cleanups = [] \<rparr>"

definition run_cleanups :: "('o, 'c) Mounted \<Rightarrow> ('o, 'c) Mounted" where
  "run_cleanups m = \<lparr> listboxId = fold (\<lambda>c reg. c reg) (cleanups m) (listboxId m), cleanups = [] \<rparr>"

text \<open>The body \<open>() => onCleanup(context.registerListboxId(local.id!))\<close>.\<close>

definition effect ::
  "('o, 'c) SelectContext \<Rightarrow> ('o, 'c) props \<Rightarrow> ('o, 'c) Mounted \<Rightarrow> ('o, 'c) Mounted" where
  "effect ctx props0 m =
     (let (local, others) = SelectListbox_split ctx props0;
          (reg, dispose) = registerListboxId (local ''id'') (listboxId m)
      in \<lparr> listboxId = reg, cleanups = dispose # cleanups m \<rparr>)"

text \<open>
  \<open>createEffect\<close> of solid-js: every run of the effect (the first one at mount, a later
  one when \<open>local.id\<close> changes) first runs the cleanups of the previous run; disposing
  the component runs the cleanups of the last run.
\<close>

datatype ('o, 'c) lifecycle = Run "('o, 'c) props" | Dispose

fun step ::
  "('o, 'c) SelectContext \<Rightarrow> ('o, 'c) Mounted \<Rightarrow> ('o, 'c) lifecycle \<Rightarrow> ('o, 'c) Mounted" where
  "step ctx m (Run props0) = effect ctx props0 (run_cleanups m)"
| "step ctx m Dispose = run_cleanups m"

section \<open>A concrete framework and select context\<close>

text \<open>
  An instance of the parameters on which the theorems below are exercised. Its
  \<open>createListState\<close> takes the selection mode from its argument.
\<close>

definition example_framework :: "(string, string list) Framework" where
  "example_framework =
     \<lparr> createListState = (\<lambda>cfg.
         \<lparr> collection = [],
           selectionManager =
             \<lparr> selectionMode = (case selectionMode_p cfg of Some (VStr m) \<Rightarrow> m | _ \<Rightarrow> ''none'') \<rparr> \<rparr>),
       createSelectableList = (\<lambda>p.
         \<lparr> tabIndex = Some (VNum 0),
           onKeyDown = VFn ''selectableList.onKeyDown'',
           onMouseDown = VFn ''selectableList.onMouseDown'',
           onFocusIn = VFn ''selectableList.onFocusIn'',
           onFocusOut = VFn ''selectableList.onFocusOut'' \<rparr>),
       composeEventHandlers = (\<lambda>hs. case hs of Some (VFn f) # _ \<Rightarrow> VFn (''composed:'' @ f) | _ \<Rightarrow> VFn ''composed''),
       mergeRefs = (\<lambda>rs. VFn ''mergedRefs''),
       access = (\<lambda>v. v),
       createGenerateId = (\<lambda>v. VFn ''generateId''),
       isAs = (\<lambda>j. j = ''<As/>''),
       Dynamic = (\<lambda>ps ch. ''<ul/>'') \<rparr>"

definition example_state :: "string list ListState" where
  "example_state = \<lparr> collection = [''a'', ''b''], selectionManager = \<lparr> selectionMode = ''multiple'' \<rparr> \<rparr>"

definition example_context :: "(string, string list) SelectContext" where
  "example_context =
     \<lparr> generateId_s = (\<lambda>part. ''select-1-'' @ part),
       listState_s = example_state,
       isVirtualized_s = None,
       autoFocus_s = Some (VStr ''first''),
       setListboxRef = VFn ''setListboxRef'',
       listboxAriaLabelledBy = Some (VStr ''select-1-label'') \<rparr>"


section \<open>The two halves of the split props\<close>

text \<open>\<open>local\<close> and \<open>others\<close> of \<open>ListboxRoot\<close>, named for the statements below.\<close>

definition ListboxRoot_local :: "string \<Rightarrow> ('o, 'c) props \<Rightarrow> ('o, 'c) props" where
  "ListboxRoot_local uid props0 =
     fst (splitProps (mergeDefaultProps (ListboxRoot_defaults uid) props0) ListboxRoot_keys)"

definition ListboxRoot_others :: "string \<Rightarrow> ('o, 'c) props \<Rightarrow> ('o, 'c) props" where
  "ListboxRoot_others uid props0 =
     snd (splitProps (mergeDefaultProps (ListboxRoot_defaults uid) props0) ListboxRoot_keys)"

section \<open>Lookup lemmas\<close>

lemma merged_lookup:
  "mergeDefaultProps (ListboxRoot_defaults uid) props0 k =
     (case props0 k of Some v \<Rightarrow> Some v | None \<Rightarrow> ListboxRoot_defaults uid k)"
  by (simp add: mergeDefaultProps_def mergeProps_def)

lemma local_lookup:
  "ListboxRoot_local uid props0 k =
     (if k \<in> set ListboxRoot_keys
      then (case props0 k of Some v \<Rightarrow> Some v | None \<Rightarrow> ListboxRoot_defaults uid k)
      else None)"
  by (simp add: ListboxRoot_local_def splitProps_def merged_lookup)

lemma others_lookup:
  "ListboxRoot_others uid props0 k =
     (if k \<in> set ListboxRoot_keys then None
      else (case props0 k of Some v \<Rightarrow> Some v | None \<Rightarrow> ListboxRoot_defaults uid k))"
  by (simp add: ListboxRoot_others_def splitProps_def merged_lookup)

lemma ListboxRoot_unfold:
  "ListboxRoot fw uid props0 =
     (case fst (listState fw (ListboxRoot_local uid props0)) of
        VState ls \<Rightarrow>
          (case call_children (ListboxRoot_local uid props0 ''children'') (collection ls) of
             Inl e \<Rightarrow> Inl e
           | Inr ch \<Rightarrow>
              (case Polymorphic fw
                 (mergeProps
                    (rootAttrs fw (ListboxRoot_local uid props0) ls
                       (createSelectableList fw
                          (selectableListProps fw (ListboxRoot_local uid props0) ls)))
                    (ListboxRoot_others uid props0)) ch of
               Inl e \<Rightarrow> Inl e
             | Inr out \<Rightarrow>
               Inr \<lparr> context_value =
                       \<lparr> listState_c = VState ls,
                         generateId = createGenerateId fw (ListboxRoot_others uid props0 ''id''),
                         shouldUseVirtualFocus_c =
                           mergeDefaultProps (ListboxRoot_defaults uid) props0 ''shouldUseVirtualFocus'',
                         shouldSelectOnPressUp =
                           mergeDefaultProps (ListboxRoot_defaults uid) props0 ''shouldSelectOnPressUp'',
                         shouldFocusOnHover =
                           mergeDefaultProps (ListboxRoot_defaults uid) props0 ''shouldFocusOnHover'',
                         isVirtualized_c = ListboxRoot_local uid props0 ''isVirtualized'' \<rparr>,
                     element =
                       mergeProps
                         (rootAttrs fw (ListboxRoot_local uid props0) ls
                            (createSelectableList fw
                               (selectableListProps fw (ListboxRoot_local uid props0) ls)))
                         (ListboxRoot_others uid props0),
                     children = ch,
                     createdWith = snd (listState fw (ListboxRoot_local uid props0)),
                     selectableWith = selectableListProps fw (ListboxRoot_local uid props0) ls,
                     rendering = out \<rparr>))
      | _ \<Rightarrow> Inl TypeError)"
  by (simp add: ListboxRoot_def ListboxRoot_local_def ListboxRoot_others_def Let_def
      split: prod.splits val.splits sum.splits)

lemma ListboxRoot_Inr:
  assumes "ListboxRoot fw uid props0 = Inr r"
  shows "\<exists>ls. fst (listState fw (ListboxRoot_local uid props0)) = VState ls
    \<and> call_children (ListboxRoot_local uid props0 ''children'') (collection ls) = Inr (children r)
    \<and> listState_c (context_value r) = VState ls
    \<and> generateId (context_value r) = createGenerateId fw (ListboxRoot_others uid props0 ''id'')
    \<and> shouldUseVirtualFocus_c (context_value r) =
          mergeDefaultProps (ListboxRoot_defaults uid) props0 ''shouldUseVirtualFocus''
    \<and> shouldSelectOnPressUp (context_value r) =
          mergeDefaultProps (ListboxRoot_defaults uid) props0 ''shouldSelectOnPressUp''
    \<and> shouldFocusOnHover (context_value r) =
          mergeDefaultProps (ListboxRoot_defaults uid) props0 ''shouldFocusOnHover''
    \<and> isVirtualized_c (context_value r) = ListboxRoot_local uid props0 ''isVirtualized''
    \<and> element r =
          mergeProps
            (rootAttrs fw (ListboxRoot_local uid props0) ls
               (createSelectableList fw (selectableListProps fw (ListboxRoot_local uid props0) ls)))
            (ListboxRoot_others uid props0)
    \<and> createdWith r = snd (listState fw (ListboxRoot_local uid props0))
    \<and> selectableWith r = selectableListProps fw (ListboxRoot_local uid props0) ls
    \<and> Polymorphic fw (element r) (children r) = Inr (rendering r)"
proof (cases "fst (listState fw (ListboxRoot_local uid props0))")
  case (VState ls)
  show ?thesis
  proof (cases "call_children (ListboxRoot_local uid props0 ''children'') (collection ls)")
    case (Inl e)
    with VState assms show ?thesis by (simp add: ListboxRoot_unfold)
  next
    case (Inr ch)
    with VState assms show ?thesis by (auto simp add: ListboxRoot_unfold split: sum.splits)
  qed
qed (use assms in \<open>simp_all add: ListboxRoot_unfold\<close>)

lemma listState_given:
  assumes "local ''state'' = Some (VState s)"
  shows "listState fw local = (VState s, None)"
  using assms by (simp add: listState_def)

lemma listState_created:
  assumes "local ''state'' = None"
  shows "listState fw local =
    (VState (createListState fw (listStateProps fw local)), Some (listStateProps fw local))"
  using assms by (simp add: listState_def Let_def)

lemma keys_mem:
  "''state'' \<in> set ListboxRoot_keys" "''children'' \<in> set ListboxRoot_keys"
  "''scrollRef'' \<in> set ListboxRoot_keys" "''options'' \<in> set ListboxRoot_keys"
  "''onValueChange'' \<in> set ListboxRoot_keys" "''keyboardDelegate'' \<in> set ListboxRoot_keys"
  "''scrollToItem'' \<in> set ListboxRoot_keys" "''selectionMode'' \<in> set ListboxRoot_keys"
  "''isVirtualized'' \<in> set ListboxRoot_keys" "''optionValue'' \<in> set ListboxRoot_keys"
  "''optionTextValue'' \<in> set ListboxRoot_keys" "''optionDisabled'' \<in> set ListboxRoot_keys"
  "''optionGroupChildren'' \<in> set ListboxRoot_keys" "''isOptionGroup'' \<in> set ListboxRoot_keys"
  "''onKeyDown'' \<in> set ListboxRoot_keys" "''onMouseDown'' \<in> set ListboxRoot_keys"
  "''onFocusIn'' \<in> set ListboxRoot_keys" "''onFocusOut'' \<in> set ListboxRoot_keys"
  "''value'' \<in> set ListboxRoot_keys" "''defaultValue'' \<in> set ListboxRoot_keys"
  by (simp_all add: ListboxRoot_keys_def)

lemma keys_not_mem:
  "''role'' \<notin> set ListboxRoot_keys" "''tabIndex'' \<notin> set ListboxRoot_keys"
  "''id'' \<notin> set ListboxRoot_keys" "''aria-multiselectable'' \<notin> set ListboxRoot_keys"
  by (simp_all add: ListboxRoot_keys_def)

lemma defaults_lookup:
  "ListboxRoot_defaults uid ''id'' = Some (VStr (''listbox-'' @ uid))"
  "ListboxRoot_defaults uid ''selectionMode'' = Some (VStr ''single'')"
  "ListboxRoot_defaults uid ''isVirtualized'' = Some (VBool False)"
  "k \<noteq> ''id'' \<Longrightarrow> k \<noteq> ''selectionMode'' \<Longrightarrow> k \<noteq> ''isVirtualized'' \<Longrightarrow>
     ListboxRoot_defaults uid k = None"
  by (simp_all add: ListboxRoot_defaults_def defaultId_def)

lemma local_state: "ListboxRoot_local uid props0 ''state'' = props0 ''state''"
  by (simp add: local_lookup keys_mem defaults_lookup split: option.splits)

lemma local_children: "ListboxRoot_local uid props0 ''children'' = props0 ''children''"
  by (simp add: local_lookup keys_mem defaults_lookup split: option.splits)

lemma handed_asChild:
  "mergeProps (rootAttrs fw local ls sl) (ListboxRoot_others uid props0) ''asChild'' =
     props0 ''asChild''"
proof -
  have "''asChild'' \<notin> set ListboxRoot_keys" by (simp add: ListboxRoot_keys_def)
  then have "ListboxRoot_others uid props0 ''asChild'' = props0 ''asChild''"
    by (simp add: others_lookup defaults_lookup split: option.split)
  moreover have "rootAttrs fw local ls sl ''asChild'' = None"
    by (simp add: rootAttrs_def)
  ultimately show ?thesis by (simp add: mergeProps_def split: option.split)
qed

lemma Polymorphic_without_asChild:
  assumes "ps ''asChild'' = None \<or> ps ''asChild'' = Some (VBool False)"
  shows "Polymorphic fw ps ch = Inr (Dynamic fw ps ch)"
  using assms by (auto simp add: Polymorphic_def)

lemma Polymorphic_asChild_no_children:
  assumes "ps ''asChild'' = Some (VBool True)"
  shows "Polymorphic fw ps None =
    Inl (Thrown ''asChild: no As component was found among the children'')"
  using assms by (simp add: Polymorphic_def)

lemma ListboxRoot_Inr_ex:
  assumes "props0 ''children'' = None"
    and "props0 ''state'' = None \<or> (\<exists>s. props0 ''state'' = Some (VState s))"
    and "props0 ''asChild'' = None \<or> props0 ''asChild'' = Some (VBool False)"
  shows "\<exists>r. ListboxRoot fw uid props0 = Inr r"
proof -
  have "\<exists>ls. fst (listState fw (ListboxRoot_local uid props0)) = VState ls"
    using assms(2) by (auto simp add: listState_given listState_created local_state)
  then obtain ls where ls: "fst (listState fw (ListboxRoot_local uid props0)) = VState ls" ..
  let ?el = "mergeProps
      (rootAttrs fw (ListboxRoot_local uid props0) ls
         (createSelectableList fw (selectableListProps fw (ListboxRoot_local uid props0) ls)))
      (ListboxRoot_others uid props0)"
  have "?el ''asChild'' = None \<or> ?el ''asChild'' = Some (VBool False)"
    using assms(3) by (simp only: handed_asChild)
  then have "Polymorphic fw ?el None = Inr (Dynamic fw ?el None)"
    by (rule Polymorphic_without_asChild)
  with ls show ?thesis
    using assms(1) by (simp add: ListboxRoot_unfold local_children)
qed

section \<open>The list state of ListboxRoot\<close>

text \<open>
  C1. When the \<open>state\<close> prop is provided, the list state of the listbox (what the
  memo \<open>listState\<close> returns, and what the context provides) is exactly that state and
  \<open>createListState\<close> is not invoked; the selectable list works on its
  selection manager and collection. Whatever the framework, the unique id and the
  other props (\<open>value\<close>, \<open>defaultValue\<close>, \<open>onValueChange\<close>, \<open>options\<close>, the option
  accessors) are, a run with the same \<open>state\<close> prop uses the same list state.
\<close>

theorem ListboxRoot_state_prop:
  fixes props :: "('o, 'c) props"
  assumes "props ''state'' = Some (VState s)" and "ListboxRoot fw uid props = Inr r"
  shows "listState fw (ListboxRoot_local uid props) = (VState s, None)
    \<and> listState_c (context_value r) = VState s \<and> createdWith r = None
    \<and> selectionManager_sl (selectableWith r) = selectionManager s
    \<and> collection_sl (selectableWith r) = collection s
    \<and> (\<forall>fw' uid' props' r'.
          props' ''state'' = props ''state'' \<and> ListboxRoot fw' uid' props' = Inr r'
          \<longrightarrow> listState_c (context_value r') = listState_c (context_value r)
              \<and> createdWith r' = None)"
proof -
  have given: "listState_c (context_value q) = VState s \<and> createdWith q = None
      \<and> selectableWith q = selectableListProps g (ListboxRoot_local u p) s"
    if "p ''state'' = Some (VState s)" and "ListboxRoot g u p = Inr q"
    for g :: "('o, 'c) Framework" and u p q
  proof -
    have "listState g (ListboxRoot_local u p) = (VState s, None)"
      using that(1) by (simp add: listState_given local_state)
    with ListboxRoot_Inr [OF that(2)] show ?thesis by auto
  qed
  from given [OF assms] have "listState_c (context_value r) = VState s" "createdWith r = None"
    "selectionManager_sl (selectableWith r) = selectionManager s"
    "collection_sl (selectableWith r) = collection s"
    by (simp_all add: selectableListProps_def)
  moreover have "\<forall>fw' uid' props' r'.
      props' ''state'' = props ''state'' \<and> ListboxRoot fw' uid' props' = Inr r'
      \<longrightarrow> listState_c (context_value r') = VState s \<and> createdWith r' = None"
  proof (intro allI impI)
    fix fw' :: "('o, 'c) Framework" and uid' props' r'
    assume h: "props' ''state'' = props ''state'' \<and> ListboxRoot fw' uid' props' = Inr r'"
    then have "props' ''state'' = Some (VState s)" using assms(1) by simp
    with given [of props' fw' uid' r'] h
    show "listState_c (context_value r') = VState s \<and> createdWith r' = None" by simp
  qed
  moreover have "listState fw (ListboxRoot_local uid props) = (VState s, None)"
    using assms(1) by (simp add: listState_given local_state)
  ultimately show ?thesis by simp
qed

theorem ListboxRoot_state_prop_witness:
  "\<exists>r. ListboxRoot example_framework ''cl-0''
         (Map.empty(''state'' \<mapsto> VState example_state, ''value'' \<mapsto> VKeys [''a''],
                    ''selectionMode'' \<mapsto> VStr ''single'')) = Inr r
       \<and> listState_c (context_value r) = VState example_state \<and> createdWith r = None
       \<and> selectionManager_sl (selectableWith r) = selectionManager example_state"
proof -
  let ?p = "Map.empty(''state'' \<mapsto> VState example_state, ''value'' \<mapsto> VKeys [''a''],
                      ''selectionMode'' \<mapsto> VStr ''single'') :: (string, string list) props"
  have s: "?p ''state'' = Some (VState example_state)" by simp
  have c: "?p ''children'' = None" by simp
  have d: "?p ''asChild'' = None \<or> ?p ''asChild'' = Some (VBool False)" by simp
  obtain r where r: "ListboxRoot example_framework ''cl-0'' ?p = Inr r"
    using ListboxRoot_Inr_ex [where ?props0.0 = ?p and fw = example_framework and uid = "''cl-0''"] s c d
    by blast
  from ListboxRoot_state_prop [where props = ?p and s = example_state and r = r, OF s r] r
  show ?thesis by blast
qed

text \<open>
  C3. When no \<open>state\<close> prop is provided, \<open>createListState\<close> is invoked and its result
  is the list state; its data source is the \<open>options\<close> prop, or the empty array when
  \<open>options\<close> is undefined, and \<open>optionValue\<close>, \<open>optionTextValue\<close>, \<open>optionDisabled\<close>,
  \<open>optionGroupChildren\<close> and \<open>isOptionGroup\<close> are forwarded unchanged as \<open>getKey\<close>,
  \<open>getTextValue\<close>, \<open>getIsDisabled\<close>, \<open>getSectionChildren\<close> and \<open>getIsSection\<close>.
\<close>

theorem ListboxRoot_collection_source:
  fixes props :: "('o, 'c) props"
  assumes "props ''state'' = None" and "ListboxRoot fw uid props = Inr r"
  shows "\<exists>cfg. createdWith r = Some cfg
    \<and> listState_c (context_value r) = VState (createListState fw cfg)
    \<and> dataSource cfg = (case props ''options'' of Some v \<Rightarrow> v | None \<Rightarrow> VOptions [])
    \<and> getKey cfg = props ''optionValue''
    \<and> getTextValue cfg = props ''optionTextValue''
    \<and> getIsDisabled cfg = props ''optionDisabled''
    \<and> getSectionChildren cfg = props ''optionGroupChildren''
    \<and> getIsSection cfg = props ''isOptionGroup''"
proof -
  let ?L = "ListboxRoot_local uid props"
  have "listState fw ?L = (VState (createListState fw (listStateProps fw ?L)), Some (listStateProps fw ?L))"
    using assms(1) by (simp add: listState_created local_state)
  with ListboxRoot_Inr [OF assms(2)]
  have "createdWith r = Some (listStateProps fw ?L)"
    "listState_c (context_value r) = VState (createListState fw (listStateProps fw ?L))"
    by auto
  moreover have "?L ''options'' = props ''options''" "?L ''optionValue'' = props ''optionValue''"
    "?L ''optionTextValue'' = props ''optionTextValue''"
    "?L ''optionDisabled'' = props ''optionDisabled''"
    "?L ''optionGroupChildren'' = props ''optionGroupChildren''"
    "?L ''isOptionGroup'' = props ''isOptionGroup''"
    by (simp_all add: local_lookup keys_mem defaults_lookup split: option.splits)
  ultimately show ?thesis by (simp add: listStateProps_def)
qed

theorem ListboxRoot_collection_source_witness:
  "\<exists>r cfg. ListboxRoot example_framework ''cl-0''
         (Map.empty(''optionValue'' \<mapsto> VStr ''value'', ''optionTextValue'' \<mapsto> VStr ''label'',
                    ''isOptionGroup'' \<mapsto> VFn ''isGroup'')) = Inr r
       \<and> createdWith r = Some cfg \<and> dataSource cfg = VOptions []
       \<and> getKey cfg = Some (VStr ''value'') \<and> getTextValue cfg = Some (VStr ''label'')
       \<and> getIsDisabled cfg = None \<and> getSectionChildren cfg = None
       \<and> getIsSection cfg = Some (VFn ''isGroup'')"
proof -
  let ?p = "Map.empty(''optionValue'' \<mapsto> VStr ''value'', ''optionTextValue'' \<mapsto> VStr ''label'',
                    ''isOptionGroup'' \<mapsto> VFn ''isGroup'') :: (string, string list) props"
  have s: "?p ''state'' = None" by simp
  have c: "?p ''children'' = None" by simp
  have d: "?p ''asChild'' = None \<or> ?p ''asChild'' = Some (VBool False)" by simp
  obtain r where r: "ListboxRoot example_framework ''cl-0'' ?p = Inr r"
    using ListboxRoot_Inr_ex [where ?props0.0 = ?p and fw = example_framework and uid = "''cl-0''"] s c d
    by blast
  from ListboxRoot_collection_source [where props = ?p and r = r, OF s r] r
  show ?thesis by auto
qed

section \<open>The attributes of the root element\<close>

lemma element_lookup:
  assumes "ListboxRoot fw uid props0 = Inr r"
  shows "\<exists>ls. listState_c (context_value r) = VState ls
    \<and> selectableWith r = selectableListProps fw (ListboxRoot_local uid props0) ls
    \<and> (\<forall>k. element r k =
          (case ListboxRoot_others uid props0 k of
             Some v \<Rightarrow> Some v
           | None \<Rightarrow> rootAttrs fw (ListboxRoot_local uid props0) ls
                       (createSelectableList fw (selectableWith r)) k))"
proof -
  from ListboxRoot_Inr [OF assms] obtain ls where
    ls: "listState_c (context_value r) = VState ls"
      "selectableWith r = selectableListProps fw (ListboxRoot_local uid props0) ls"
      "element r =
         mergeProps
           (rootAttrs fw (ListboxRoot_local uid props0) ls
              (createSelectableList fw (selectableListProps fw (ListboxRoot_local uid props0) ls)))
           (ListboxRoot_others uid props0)"
    by blast
  show ?thesis
    by (rule exI [of _ ls]) (simp add: ls mergeProps_def split: option.splits)
qed

lemma local_handlers:
  "ListboxRoot_local uid props0 ''onKeyDown'' = props0 ''onKeyDown''"
  "ListboxRoot_local uid props0 ''onMouseDown'' = props0 ''onMouseDown''"
  "ListboxRoot_local uid props0 ''onFocusIn'' = props0 ''onFocusIn''"
  "ListboxRoot_local uid props0 ''onFocusOut'' = props0 ''onFocusOut''"
  by (simp_all add: local_lookup keys_mem defaults_lookup split: option.splits)

lemma others_handlers:
  "ListboxRoot_others uid props0 ''onKeyDown'' = None"
  "ListboxRoot_others uid props0 ''onMouseDown'' = None"
  "ListboxRoot_others uid props0 ''onFocusIn'' = None"
  "ListboxRoot_others uid props0 ''onFocusOut'' = None"
  by (simp_all add: others_lookup keys_mem)

lemma rootAttrs_handlers:
  "rootAttrs fw local ls sl ''onKeyDown'' =
     Some (composeEventHandlers fw [local ''onKeyDown'', Some (onKeyDown sl)])"
  "rootAttrs fw local ls sl ''onMouseDown'' =
     Some (composeEventHandlers fw [local ''onMouseDown'', Some (onMouseDown sl)])"
  "rootAttrs fw local ls sl ''onFocusIn'' =
     Some (composeEventHandlers fw [local ''onFocusIn'', Some (onFocusIn sl)])"
  "rootAttrs fw local ls sl ''onFocusOut'' =
     Some (composeEventHandlers fw [local ''onFocusOut'', Some (onFocusOut sl)])"
  by (simp_all add: rootAttrs_def)

lemma rootAttrs_role_tabIndex:
  "rootAttrs fw local ls sl ''role'' = Some (VStr ''listbox'')"
  "rootAttrs fw local ls sl ''tabIndex'' = tabIndex sl"
  "rootAttrs fw local ls sl ''id'' = None"
  "rootAttrs fw local ls sl ''aria-multiselectable'' =
     (if selectionMode (selectionManager ls) = ''multiple'' then Some (VBool True) else None)"
  by (simp_all add: rootAttrs_def)

lemma others_passed:
  "ListboxRoot_others uid props0 ''role'' = props0 ''role''"
  "ListboxRoot_others uid props0 ''tabIndex'' = props0 ''tabIndex''"
  "ListboxRoot_others uid props0 ''aria-multiselectable'' = props0 ''aria-multiselectable''"
  "ListboxRoot_others uid props0 ''id'' =
     Some (case props0 ''id'' of Some v \<Rightarrow> v | None \<Rightarrow> VStr (''listbox-'' @ uid))"
  by (simp_all add: others_lookup keys_not_mem defaults_lookup split: option.splits)

text \<open>
  C5. On the root element each of \<open>onKeyDown\<close>, \<open>onMouseDown\<close>, \<open>onFocusIn\<close> and
  \<open>onFocusOut\<close> is \<open>composeEventHandlers\<close> applied to the list of the handler the user
  supplied (first) and the handler of the selectable list (second); the spread of the
  remaining props does not replace it.
\<close>

theorem ListboxRoot_event_handlers:
  fixes props :: "('o, 'c) props"
  assumes "ListboxRoot fw uid props = Inr r"
  shows "element r ''onKeyDown'' =
      Some (composeEventHandlers fw
        [props ''onKeyDown'', Some (onKeyDown (createSelectableList fw (selectableWith r)))])
    \<and> element r ''onMouseDown'' =
      Some (composeEventHandlers fw
        [props ''onMouseDown'', Some (onMouseDown (createSelectableList fw (selectableWith r)))])
    \<and> element r ''onFocusIn'' =
      Some (composeEventHandlers fw
        [props ''onFocusIn'', Some (onFocusIn (createSelectableList fw (selectableWith r)))])
    \<and> element r ''onFocusOut'' =
      Some (composeEventHandlers fw
        [props ''onFocusOut'', Some (onFocusOut (createSelectableList fw (selectableWith r)))])"
  using element_lookup [OF assms]
  by (auto simp add: others_handlers rootAttrs_handlers local_handlers)

theorem ListboxRoot_event_handlers_witness:
  "\<exists>r. ListboxRoot example_framework ''cl-0'' (Map.empty(''onKeyDown'' \<mapsto> VFn ''user'')) = Inr r
     \<and> element r ''onKeyDown'' =
         Some (composeEventHandlers example_framework
                 [Some (VFn ''user''), Some (VFn ''selectableList.onKeyDown'')])
     \<and> element r ''onFocusOut'' =
         Some (composeEventHandlers example_framework
                 [None, Some (VFn ''selectableList.onFocusOut'')])"
proof -
  let ?p = "Map.empty(''onKeyDown'' \<mapsto> VFn ''user'') :: (string, string list) props"
  have s: "?p ''state'' = None" by simp
  have c: "?p ''children'' = None" by simp
  have d: "?p ''asChild'' = None \<or> ?p ''asChild'' = Some (VBool False)" by simp
  obtain r where r: "ListboxRoot example_framework ''cl-0'' ?p = Inr r"
    using ListboxRoot_Inr_ex [where ?props0.0 = ?p and fw = example_framework and uid = "''cl-0''"] s c d
    by blast
  have "onKeyDown (createSelectableList example_framework q) = VFn ''selectableList.onKeyDown''"
    "onFocusOut (createSelectableList example_framework q) = VFn ''selectableList.onFocusOut''"
    for q by (simp_all add: example_framework_def)
  with ListboxRoot_event_handlers [where props = ?p and r = r, OF r] r
  show ?thesis by auto
qed

text \<open>
  C7. A user-supplied \<open>id\<close>, \<open>selectionMode\<close> or \<open>isVirtualized\<close> takes precedence over
  the default; when absent, the id is \<open>listbox-\<close> followed by the unique id of the
  instance, the selection mode handed to \<open>createListState\<close> is \<open>single\<close>, and
  \<open>isVirtualized\<close> is false for both the selectable list and the context.
\<close>

theorem ListboxRoot_default_props:
  fixes props :: "('o, 'c) props"
  assumes "ListboxRoot fw uid props = Inr r"
  shows "element r ''id'' =
      Some (case props ''id'' of Some v \<Rightarrow> v | None \<Rightarrow> VStr (''listbox-'' @ uid))
    \<and> generateId (context_value r) =
      createGenerateId fw
        (Some (case props ''id'' of Some v \<Rightarrow> v | None \<Rightarrow> VStr (''listbox-'' @ uid)))
    \<and> isVirtualized (selectableWith r) =
      Some (case props ''isVirtualized'' of Some v \<Rightarrow> v | None \<Rightarrow> VBool False)
    \<and> isVirtualized_c (context_value r) =
      Some (case props ''isVirtualized'' of Some v \<Rightarrow> v | None \<Rightarrow> VBool False)
    \<and> (\<forall>cfg. createdWith r = Some cfg \<longrightarrow>
          selectionMode_p cfg =
            access fw (Some (case props ''selectionMode'' of Some v \<Rightarrow> v
                             | None \<Rightarrow> VStr ''single'')))"
proof -
  let ?L = "ListboxRoot_local uid props"
  have L: "?L ''isVirtualized'' =
        Some (case props ''isVirtualized'' of Some v \<Rightarrow> v | None \<Rightarrow> VBool False)"
    "?L ''selectionMode'' =
        Some (case props ''selectionMode'' of Some v \<Rightarrow> v | None \<Rightarrow> VStr ''single'')"
    by (simp_all add: local_lookup keys_mem defaults_lookup split: option.splits)
  from ListboxRoot_Inr [OF assms] obtain ls where
    ls: "generateId (context_value r) = createGenerateId fw (ListboxRoot_others uid props ''id'')"
      "isVirtualized_c (context_value r) = ?L ''isVirtualized''"
      "createdWith r = snd (listState fw ?L)"
      "selectableWith r = selectableListProps fw ?L ls"
    by blast
  have "element r ''id'' =
      Some (case props ''id'' of Some v \<Rightarrow> v | None \<Rightarrow> VStr (''listbox-'' @ uid))"
    using element_lookup [OF assms] by (auto simp add: others_passed)
  moreover have "selectionMode_p cfg = access fw (?L ''selectionMode'')"
    if "createdWith r = Some cfg" for cfg
    using that ls(3)
    by (cases "?L ''state''") (auto simp add: listState_def Let_def listStateProps_def split: if_splits)
  ultimately show ?thesis
    using ls L by (simp add: others_passed selectableListProps_def)
qed

theorem ListboxRoot_default_props_witness:
  "\<exists>r cfg. ListboxRoot example_framework ''cl-7'' (Map.empty(''isVirtualized'' \<mapsto> VBool True)) = Inr r
     \<and> element r ''id'' = Some (VStr ''listbox-cl-7'')
     \<and> isVirtualized (selectableWith r) = Some (VBool True)
     \<and> isVirtualized_c (context_value r) = Some (VBool True)
     \<and> createdWith r = Some cfg \<and> selectionMode_p cfg = Some (VStr ''single'')"
proof -
  let ?p = "Map.empty(''isVirtualized'' \<mapsto> VBool True) :: (string, string list) props"
  have s: "?p ''state'' = None" by simp
  have c: "?p ''children'' = None" by simp
  have d: "?p ''asChild'' = None \<or> ?p ''asChild'' = Some (VBool False)" by simp
  obtain r where r: "ListboxRoot example_framework ''cl-7'' ?p = Inr r"
    using ListboxRoot_Inr_ex [where ?props0.0 = ?p and fw = example_framework and uid = "''cl-7''"] s c d
    by blast
  have "\<exists>cfg. createdWith r = Some cfg"
    using ListboxRoot_Inr [OF r] by (auto simp add: listState_created local_state)
  moreover have "access example_framework v = v" for v
    by (simp add: example_framework_def)
  ultimately show ?thesis
    using ListboxRoot_default_props [where props = ?p and r = r, OF r] r by auto
qed

text \<open>
  C8. \<open>role\<close> and \<open>tabIndex\<close> are not among the keys split off, so they stay in the
  remaining props, which are spread after the attributes of the component: a
  user-supplied \<open>role\<close> or \<open>tabIndex\<close> replaces \<open>role="listbox"\<close> and the tab index of
  the selectable list, and only without such a prop is the role \<open>listbox\<close>.
\<close>

theorem ListboxRoot_role_tabIndex:
  fixes props :: "('o, 'c) props"
  assumes "ListboxRoot fw uid props = Inr r"
  shows "''role'' \<notin> set ListboxRoot_keys \<and> ''tabIndex'' \<notin> set ListboxRoot_keys
    \<and> element r ''role'' =
        Some (case props ''role'' of Some v \<Rightarrow> v | None \<Rightarrow> VStr ''listbox'')
    \<and> element r ''tabIndex'' =
        (case props ''tabIndex'' of
           Some v \<Rightarrow> Some v
         | None \<Rightarrow> tabIndex (createSelectableList fw (selectableWith r)))"
proof -
  from element_lookup [OF assms] obtain ls where
    e: "\<And>k. element r k =
          (case ListboxRoot_others uid props k of
             Some v \<Rightarrow> Some v
           | None \<Rightarrow> rootAttrs fw (ListboxRoot_local uid props) ls
                       (createSelectableList fw (selectableWith r)) k)"
    by blast
  have "element r ''role'' =
      Some (case props ''role'' of Some v \<Rightarrow> v | None \<Rightarrow> VStr ''listbox'')"
    by (simp add: e others_passed rootAttrs_role_tabIndex split: option.split)
  moreover have "element r ''tabIndex'' =
      (case props ''tabIndex'' of
         Some v \<Rightarrow> Some v
       | None \<Rightarrow> tabIndex (createSelectableList fw (selectableWith r)))"
    by (simp add: e others_passed rootAttrs_role_tabIndex split: option.split)
  ultimately show ?thesis by (simp add: keys_not_mem)
qed

theorem ListboxRoot_role_tabIndex_witness:
  "\<exists>r. ListboxRoot example_framework ''cl-0'' (Map.empty(''role'' \<mapsto> VStr ''menu'')) = Inr r
     \<and> element r ''role'' = Some (VStr ''menu'') \<and> element r ''tabIndex'' = Some (VNum 0)"
proof -
  let ?p = "Map.empty(''role'' \<mapsto> VStr ''menu'') :: (string, string list) props"
  have s: "?p ''state'' = None" by simp
  have c: "?p ''children'' = None" by simp
  have d: "?p ''asChild'' = None \<or> ?p ''asChild'' = Some (VBool False)" by simp
  obtain r where r: "ListboxRoot example_framework ''cl-0'' ?p = Inr r"
    using ListboxRoot_Inr_ex [where ?props0.0 = ?p and fw = example_framework and uid = "''cl-0''"] s c d
    by blast
  have "tabIndex (createSelectableList example_framework q) = Some (VNum 0)" for q
    by (simp add: example_framework_def)
  with ListboxRoot_role_tabIndex [where props = ?p and r = r, OF r] r
  show ?thesis by auto
qed

text \<open>
  C2, as amended. Provided the caller passes no \<open>aria-multiselectable\<close> prop of its
  own, the \<open>aria-multiselectable\<close> attribute of the root element is true when the
  selection mode of the list state's selection manager is \<open>multiple\<close> and absent
  otherwise; the list state is the \<open>state\<close> prop when one is given, so the attribute
  then follows that state and not the \<open>selectionMode\<close> prop.
\<close>

theorem ListboxRoot_aria_multiselectable:
  fixes props :: "('o, 'c) props"
  assumes "props ''aria-multiselectable'' = None" and "ListboxRoot fw uid props = Inr r"
  shows "\<exists>ls. listState_c (context_value r) = VState ls
    \<and> selectionManager_sl (selectableWith r) = selectionManager ls
    \<and> element r ''aria-multiselectable'' =
        (if selectionMode (selectionManager ls) = ''multiple'' then Some (VBool True) else None)
    \<and> (\<forall>s. props ''state'' = Some (VState s) \<longrightarrow> ls = s)"
proof -
  from element_lookup [OF assms(2)] obtain ls where
    ls: "listState_c (context_value r) = VState ls"
      "selectableWith r = selectableListProps fw (ListboxRoot_local uid props) ls"
    and e: "\<And>k. element r k =
          (case ListboxRoot_others uid props k of
             Some v \<Rightarrow> Some v
           | None \<Rightarrow> rootAttrs fw (ListboxRoot_local uid props) ls
                       (createSelectableList fw (selectableWith r)) k)"
    by blast
  have "element r ''aria-multiselectable'' =
      (if selectionMode (selectionManager ls) = ''multiple'' then Some (VBool True) else None)"
    using assms(1) by (simp add: e others_passed rootAttrs_role_tabIndex)
  moreover have "ls = s" if "props ''state'' = Some (VState s)" for s
  proof -
    have "listState fw (ListboxRoot_local uid props) = (VState s, None)"
      using that by (simp add: listState_given local_state)
    with ListboxRoot_Inr [OF assms(2)] ls(1) show ?thesis by auto
  qed
  ultimately show ?thesis
    using ls by (intro exI [of _ ls]) (simp add: selectableListProps_def)
qed

theorem ListboxRoot_aria_multiselectable_witness:
  "\<exists>r. ListboxRoot example_framework ''cl-0''
          (Map.empty(''state'' \<mapsto> VState example_state, ''selectionMode'' \<mapsto> VStr ''single'')) = Inr r
     \<and> listState_c (context_value r) = VState example_state
     \<and> element r ''aria-multiselectable'' = Some (VBool True)"
proof -
  let ?p = "Map.empty(''state'' \<mapsto> VState example_state, ''selectionMode'' \<mapsto> VStr ''single'')
              :: (string, string list) props"
  have s: "?p ''state'' = Some (VState example_state)" by simp
  have c: "?p ''children'' = None" by simp
  have d: "?p ''asChild'' = None \<or> ?p ''asChild'' = Some (VBool False)" by simp
  have a: "?p ''aria-multiselectable'' = None" by simp
  obtain r where r: "ListboxRoot example_framework ''cl-0'' ?p = Inr r"
    using ListboxRoot_Inr_ex [where ?props0.0 = ?p and fw = example_framework and uid = "''cl-0''"] s c d
    by blast
  from ListboxRoot_aria_multiselectable [where props = ?p and r = r, OF a r] s r
  show ?thesis by (auto simp add: example_state_def)
qed

text \<open>
  C2 as stated fails: with a list state in single selection mode and a caller who
  passes \<open>aria-multiselectable\<close> itself, the attribute of the root element is true.
\<close>

theorem ListboxRoot_aria_multiselectable_counterexample:
  "(case ListboxRoot example_framework ''cl-0''
           (Map.empty(''state'' \<mapsto>
                        VState \<lparr> collection = [''a''],
                                 selectionManager = \<lparr> selectionMode = ''single'' \<rparr> \<rparr>,
                      ''aria-multiselectable'' \<mapsto> VBool True)) of
      Inl e \<Rightarrow> False
    | Inr r \<Rightarrow>
        listState_c (context_value r) =
          VState \<lparr> collection = [''a''], selectionManager = \<lparr> selectionMode = ''single'' \<rparr> \<rparr>
        \<and> selectionManager_sl (selectableWith r) = \<lparr> selectionMode = ''single'' \<rparr>
        \<and> element r ''aria-multiselectable'' = Some (VBool True))"
proof -
  let ?s = "\<lparr> collection = [''a''], selectionManager = \<lparr> selectionMode = ''single'' \<rparr> \<rparr>"
  let ?p = "Map.empty(''state'' \<mapsto> VState ?s, ''aria-multiselectable'' \<mapsto> VBool True)
              :: (string, string list) props"
  let ?L = "ListboxRoot_local ''cl-0'' ?p"
  have s: "?p ''state'' = Some (VState ?s)" by simp
  have c: "?p ''children'' = None" by simp
  have d: "?p ''asChild'' = None \<or> ?p ''asChild'' = Some (VBool False)" by simp
  obtain r where r: "ListboxRoot example_framework ''cl-0'' ?p = Inr r"
    using ListboxRoot_Inr_ex [where ?props0.0 = ?p and fw = example_framework and uid = "''cl-0''"] s c d
    by blast
  have ls: "fst (listState example_framework ?L) = VState ?s"
    using s by (simp add: listState_given local_state)
  from element_lookup [OF r] obtain ls where
    e: "listState_c (context_value r) = VState ls"
      "selectableWith r = selectableListProps example_framework ?L ls"
      "\<And>k. element r k =
          (case ListboxRoot_others ''cl-0'' ?p k of
             Some v \<Rightarrow> Some v
           | None \<Rightarrow> rootAttrs example_framework ?L ls
                       (createSelectableList example_framework (selectableWith r)) k)"
    by blast
  from ListboxRoot_Inr [OF r] e(1) ls have "ls = ?s"
    by auto
  moreover have "element r ''aria-multiselectable'' = Some (VBool True)"
    by (simp add: e(3) others_passed)
  ultimately show ?thesis
    using r e(1,2) by (simp add: selectableListProps_def)
qed

section \<open>Completion without an exception\<close>

text \<open>A render function that throws makes the listbox throw.\<close>

lemma ListboxRoot_children_throws:
  "ListboxRoot example_framework ''cl-0''
     (Map.empty(''children'' \<mapsto> VChildren (\<lambda>items. Inl (Thrown ''boom'')))) =
   Inl (Thrown ''boom'')"
proof -
  let ?p = "Map.empty(''children'' \<mapsto> VChildren (\<lambda>items. Inl (Thrown ''boom'')))
              :: (string, string list) props"
  have "\<exists>ls. fst (listState example_framework (ListboxRoot_local ''cl-0'' ?p)) = VState ls"
    by (simp add: listState_created local_state)
  then show ?thesis
    by (auto simp add: ListboxRoot_unfold local_children)
qed

lemma ListboxRoot_asChild_throws:
  assumes "props0 ''children'' = None"
    and "props0 ''state'' = None \<or> (\<exists>s. props0 ''state'' = Some (VState s))"
    and "props0 ''asChild'' = Some (VBool True)"
  shows "ListboxRoot fw uid props0 =
    Inl (Thrown ''asChild: no As component was found among the children'')"
proof -
  have "\<exists>ls. fst (listState fw (ListboxRoot_local uid props0)) = VState ls"
    using assms(2) by (auto simp add: listState_given listState_created local_state)
  then obtain ls where ls: "fst (listState fw (ListboxRoot_local uid props0)) = VState ls" ..
  let ?el = "mergeProps
      (rootAttrs fw (ListboxRoot_local uid props0) ls
         (createSelectableList fw (selectableListProps fw (ListboxRoot_local uid props0) ls)))
      (ListboxRoot_others uid props0)"
  have "?el ''asChild'' = Some (VBool True)"
    using assms(3) by (simp only: handed_asChild)
  then have "Polymorphic fw ?el None =
      Inl (Thrown ''asChild: no As component was found among the children'')"
    by (rule Polymorphic_asChild_no_children)
  with ls show ?thesis
    using assms(1) by (simp add: ListboxRoot_unfold local_children)
qed

text \<open>
  C6, as amended. For every props object of the component's type (its \<open>state\<close>, when
  present, is a \<open>ListState\<close>) in which \<open>children\<close>, \<open>scrollRef\<close>, \<open>options\<close>,
  \<open>onValueChange\<close>, \<open>keyboardDelegate\<close> and \<open>scrollToItem\<close> are absent and \<open>asChild\<close> is
  not set, \<open>ListboxRoot\<close> completes without throwing: no children are rendered, the
  scroll reference reads as undefined without an exception, the absent delegate and
  scroll function are forwarded as undefined, the data source of a created list state
  is the empty array, and \<open>Polymorphic\<close> renders the fallback element.
\<close>

theorem ListboxRoot_completes:
  fixes props :: "('o, 'c) props"
  assumes "props ''children'' = None" and "props ''scrollRef'' = None"
    and "props ''options'' = None" and "props ''onValueChange'' = None"
    and "props ''keyboardDelegate'' = None" and "props ''scrollToItem'' = None"
    and "props ''state'' = None \<or> (\<exists>s. props ''state'' = Some (VState s))"
    and "props ''asChild'' = None \<or> props ''asChild'' = Some (VBool False)"
  shows "\<exists>r. ListboxRoot fw uid props = Inr r
    \<and> children r = None
    \<and> scrollRef_sl (selectableWith r) = Inr None
    \<and> keyboardDelegate (selectableWith r) = None
    \<and> scrollToKey (selectableWith r) = None
    \<and> rendering r = Dynamic fw (element r) None
    \<and> (\<forall>cfg. createdWith r = Some cfg \<longrightarrow>
          dataSource cfg = VOptions [] \<and> onSelectionChange cfg = None)"
proof -
  let ?L = "ListboxRoot_local uid props"
  from ListboxRoot_Inr_ex [where ?props0.0 = props and fw = fw and uid = uid] assms(1,7,8)
  obtain r where r: "ListboxRoot fw uid props = Inr r" by blast
  have L: "?L ''children'' = None" "?L ''scrollRef'' = None" "?L ''options'' = None"
    "?L ''onValueChange'' = None" "?L ''keyboardDelegate'' = None" "?L ''scrollToItem'' = None"
    using assms(1-6) by (simp_all add: local_lookup keys_mem defaults_lookup)
  from ListboxRoot_Inr [OF r] obtain ls where
    ls: "call_children (?L ''children'') (collection ls) = Inr (children r)"
      "createdWith r = snd (listState fw ?L)"
      "selectableWith r = selectableListProps fw ?L ls"
      "element r =
         mergeProps
           (rootAttrs fw ?L ls (createSelectableList fw (selectableListProps fw ?L ls)))
           (ListboxRoot_others uid props)"
      "Polymorphic fw (element r) (children r) = Inr (rendering r)"
    by blast
  have ch: "children r = None" using ls(1) L(1) by simp
  have "element r ''asChild'' = props ''asChild''"
    by (simp only: ls(4) handed_asChild)
  with assms(8) have "element r ''asChild'' = None \<or> element r ''asChild'' = Some (VBool False)"
    by simp
  with Polymorphic_without_asChild [where ps = "element r" and fw = fw and ch = None] ls(5) ch
  have "rendering r = Dynamic fw (element r) None" by simp
  moreover have "scrollRef_sl (selectableWith r) = Inr None"
    "keyboardDelegate (selectableWith r) = None" "scrollToKey (selectableWith r) = None"
    by (simp_all add: ls(3) selectableListProps_def L)
  moreover have "dataSource cfg = VOptions [] \<and> onSelectionChange cfg = None"
    if "createdWith r = Some cfg" for cfg
    using that ls(2) L
    by (cases "?L ''state''") (auto simp add: listState_def Let_def listStateProps_def split: if_splits)
  ultimately show ?thesis using r ch by blast
qed

theorem ListboxRoot_completes_witness:
  "\<exists>r cfg. ListboxRoot example_framework ''cl-0'' (Map.empty(''value'' \<mapsto> VKeys [''a''])) = Inr r
     \<and> children r = None \<and> scrollRef_sl (selectableWith r) = Inr None
     \<and> createdWith r = Some cfg \<and> dataSource cfg = VOptions []"
proof -
  let ?p = "Map.empty(''value'' \<mapsto> VKeys [''a'']) :: (string, string list) props"
  have a: "?p ''children'' = None" "?p ''scrollRef'' = None" "?p ''options'' = None"
    "?p ''onValueChange'' = None" "?p ''keyboardDelegate'' = None" "?p ''scrollToItem'' = None"
    by simp_all
  have s: "?p ''state'' = None \<or> (\<exists>s. ?p ''state'' = Some (VState s))" by simp
  have d: "?p ''asChild'' = None \<or> ?p ''asChild'' = Some (VBool False)" by simp
  from ListboxRoot_completes [where props = ?p and fw = example_framework and uid = "''cl-0''",
      OF a s d]
  obtain r where r: "ListboxRoot example_framework ''cl-0'' ?p = Inr r" "children r = None"
    "scrollRef_sl (selectableWith r) = Inr None"
    "\<forall>cfg. createdWith r = Some cfg \<longrightarrow> dataSource cfg = VOptions []"
    by blast
  have "\<exists>cfg. createdWith r = Some cfg"
    using ListboxRoot_Inr [OF r(1)] by (auto simp add: listState_created local_state)
  with r show ?thesis by blast
qed

text \<open>
  C6 as stated fails: \<open>asChild\<close> is a declared prop that is not split off, so it
  reaches \<open>Polymorphic\<close> with the remaining props; with the six optional props absent
  and \<open>asChild\<close> set there is no \<open>As\<close> component among the children, and the listbox
  throws.
\<close>

theorem ListboxRoot_completes_counterexample:
  "ListboxRoot example_framework ''cl-0'' (Map.empty(''asChild'' \<mapsto> VBool True)) =
     Inl (Thrown ''asChild: no As component was found among the children'')"
proof -
  let ?p = "Map.empty(''asChild'' \<mapsto> VBool True) :: (string, string list) props"
  have "?p ''children'' = None" "?p ''state'' = None \<or> (\<exists>s. ?p ''state'' = Some (VState s))"
    "?p ''asChild'' = Some (VBool True)"
    by simp_all
  then show ?thesis
    by (rule ListboxRoot_asChild_throws [where ?props0.0 = ?p])
qed

section \<open>SelectListbox\<close>

lemma SelectListbox_local_id:
  "fst (SelectListbox_split ctx props0) ''id'' =
     Some (case props0 ''id'' of Some v \<Rightarrow> v | None \<Rightarrow> VStr (generateId_s ctx ''listbox''))"
  by (simp add: SelectListbox_split_def splitProps_def mergeDefaultProps_def mergeProps_def
      split: option.split)

lemma SelectListbox_others:
  "snd (SelectListbox_split ctx props0) k = (if k = ''ref'' \<or> k = ''id'' then None else props0 k)"
  by (simp add: SelectListbox_split_def splitProps_def mergeDefaultProps_def mergeProps_def
      split: option.split)

lemma SelectListbox_props_lookup:
  "SelectListbox_props ctx fw props0 ''id'' = fst (SelectListbox_split ctx props0) ''id''"
  "SelectListbox_props ctx fw props0 ''state'' =
     (case props0 ''state'' of Some v \<Rightarrow> Some v | None \<Rightarrow> Some (VState (listState_s ctx)))"
  "SelectListbox_props ctx fw props0 ''isVirtualized'' =
     (case props0 ''isVirtualized'' of Some v \<Rightarrow> Some v | None \<Rightarrow> isVirtualized_s ctx)"
  "SelectListbox_props ctx fw props0 ''autoFocus'' =
     (case props0 ''autoFocus'' of Some v \<Rightarrow> Some v | None \<Rightarrow> autoFocus_s ctx)"
  "SelectListbox_props ctx fw props0 ''shouldSelectOnPressUp'' =
     (case props0 ''shouldSelectOnPressUp'' of Some v \<Rightarrow> Some v | None \<Rightarrow> Some (VBool True))"
  "SelectListbox_props ctx fw props0 ''shouldFocusOnHover'' =
     (case props0 ''shouldFocusOnHover'' of Some v \<Rightarrow> Some v | None \<Rightarrow> Some (VBool True))"
  "SelectListbox_props ctx fw props0 ''children'' = props0 ''children''"
  "SelectListbox_props ctx fw props0 ''asChild'' = props0 ''asChild''"
  by (simp_all add: SelectListbox_props_def case_prod_beta mergeProps_def SelectListbox_others
      split: option.split)

lemma ListboxRoot_flags:
  assumes "ListboxRoot fw uid q = Inr r"
  shows "shouldSelectOnPressUp (context_value r) = q ''shouldSelectOnPressUp''"
    and "shouldFocusOnHover (context_value r) = q ''shouldFocusOnHover''"
    and "isVirtualized_c (context_value r) =
      Some (case q ''isVirtualized'' of Some v \<Rightarrow> v | None \<Rightarrow> VBool False)"
    and "autoFocus (selectableWith r) = access fw (q ''autoFocus'')"
proof -
  let ?L = "ListboxRoot_local uid q"
  from ListboxRoot_Inr [OF assms] obtain ls where
    ls: "shouldSelectOnPressUp (context_value r) =
          mergeDefaultProps (ListboxRoot_defaults uid) q ''shouldSelectOnPressUp''"
      "shouldFocusOnHover (context_value r) =
          mergeDefaultProps (ListboxRoot_defaults uid) q ''shouldFocusOnHover''"
      "isVirtualized_c (context_value r) = ?L ''isVirtualized''"
      "selectableWith r = selectableListProps fw ?L ls"
    by blast
  show "shouldSelectOnPressUp (context_value r) = q ''shouldSelectOnPressUp''"
    "shouldFocusOnHover (context_value r) = q ''shouldFocusOnHover''"
    by (simp_all add: ls merged_lookup defaults_lookup split: option.split)
  show "isVirtualized_c (context_value r) =
      Some (case q ''isVirtualized'' of Some v \<Rightarrow> v | None \<Rightarrow> VBool False)"
    by (simp add: ls local_lookup keys_mem defaults_lookup split: option.split)
  have "''autoFocus'' \<in> set ListboxRoot_keys" by (simp add: ListboxRoot_keys_def)
  then have "?L ''autoFocus'' = q ''autoFocus''"
    by (simp add: local_lookup defaults_lookup split: option.split)
  then show "autoFocus (selectableWith r) = access fw (q ''autoFocus'')"
    by (simp add: ls selectableListProps_def)
qed

lemma ListboxRoot_given_state:
  assumes "q ''state'' = Some (VState s)" and "ListboxRoot fw uid q = Inr r"
  shows "listState_c (context_value r) = VState s \<and> createdWith r = None"
proof -
  have "listState fw (ListboxRoot_local uid q) = (VState s, None)"
    using assms(1) by (simp add: listState_given local_state)
  with ListboxRoot_Inr [OF assms(2)] show ?thesis by auto
qed

text \<open>
  C4, as amended. For every props object that carries none of the keys \<open>state\<close>,
  \<open>isVirtualized\<close>, \<open>autoFocus\<close>, \<open>shouldSelectOnPressUp\<close> and \<open>shouldFocusOnHover\<close>
  (the props type of \<open>SelectListbox\<close> declares none of them), \<open>SelectListbox\<close> renders a
  \<open>Listbox.Root\<close> whose \<open>state\<close> is the select context's list state, whose
  \<open>isVirtualized\<close> and \<open>autoFocus\<close> come from the context and whose
  \<open>shouldSelectOnPressUp\<close> and \<open>shouldFocusOnHover\<close> are true; the listbox then uses
  the context's list state and creates none of its own.
\<close>

theorem SelectListbox_listbox_props:
  fixes props :: "('o, 'c) props"
  assumes "props ''state'' = None" and "props ''isVirtualized'' = None"
    and "props ''autoFocus'' = None" and "props ''shouldSelectOnPressUp'' = None"
    and "props ''shouldFocusOnHover'' = None"
  shows "SelectListbox_props ctx fw props ''state'' = Some (VState (listState_s ctx))
    \<and> SelectListbox_props ctx fw props ''isVirtualized'' = isVirtualized_s ctx
    \<and> SelectListbox_props ctx fw props ''autoFocus'' = autoFocus_s ctx
    \<and> SelectListbox_props ctx fw props ''shouldSelectOnPressUp'' = Some (VBool True)
    \<and> SelectListbox_props ctx fw props ''shouldFocusOnHover'' = Some (VBool True)
    \<and> (\<forall>uid r. SelectListbox ctx fw uid props = Inr r \<longrightarrow>
          listState_c (context_value r) = VState (listState_s ctx)
          \<and> createdWith r = None
          \<and> shouldSelectOnPressUp (context_value r) = Some (VBool True)
          \<and> shouldFocusOnHover (context_value r) = Some (VBool True)
          \<and> isVirtualized_c (context_value r) =
              Some (case isVirtualized_s ctx of Some v \<Rightarrow> v | None \<Rightarrow> VBool False)
          \<and> autoFocus (selectableWith r) = access fw (autoFocus_s ctx))"
proof -
  let ?q = "SelectListbox_props ctx fw props"
  have q: "?q ''state'' = Some (VState (listState_s ctx))"
    "?q ''isVirtualized'' = isVirtualized_s ctx"
    "?q ''autoFocus'' = autoFocus_s ctx"
    "?q ''shouldSelectOnPressUp'' = Some (VBool True)"
    "?q ''shouldFocusOnHover'' = Some (VBool True)"
    using assms by (simp_all add: SelectListbox_props_lookup)
  have "listState_c (context_value r) = VState (listState_s ctx)
      \<and> createdWith r = None
      \<and> shouldSelectOnPressUp (context_value r) = Some (VBool True)
      \<and> shouldFocusOnHover (context_value r) = Some (VBool True)
      \<and> isVirtualized_c (context_value r) =
          Some (case isVirtualized_s ctx of Some v \<Rightarrow> v | None \<Rightarrow> VBool False)
      \<and> autoFocus (selectableWith r) = access fw (autoFocus_s ctx)"
    if "SelectListbox ctx fw uid props = Inr r" for uid r
  proof -
    from that have r: "ListboxRoot fw uid ?q = Inr r" by (simp add: SelectListbox_def)
    from ListboxRoot_given_state [where q = ?q, OF q(1) r] ListboxRoot_flags [where q = ?q, OF r]
    show ?thesis by (simp add: q)
  qed
  with q show ?thesis by blast
qed

theorem SelectListbox_listbox_props_witness:
  "\<exists>r. SelectListbox example_context example_framework ''cl-0''
          (Map.empty(''class'' \<mapsto> VStr ''select__listbox'')) = Inr r
     \<and> listState_c (context_value r) = VState example_state \<and> createdWith r = None
     \<and> shouldSelectOnPressUp (context_value r) = Some (VBool True)
     \<and> shouldFocusOnHover (context_value r) = Some (VBool True)
     \<and> isVirtualized_c (context_value r) = Some (VBool False)
     \<and> autoFocus (selectableWith r) = Some (VStr ''first'')"
proof -
  let ?p = "Map.empty(''class'' \<mapsto> VStr ''select__listbox'') :: (string, string list) props"
  let ?q = "SelectListbox_props example_context example_framework ?p"
  have a: "?p ''state'' = None" "?p ''isVirtualized'' = None" "?p ''autoFocus'' = None"
    "?p ''shouldSelectOnPressUp'' = None" "?p ''shouldFocusOnHover'' = None"
    by simp_all
  note t = SelectListbox_listbox_props [where props = ?p and ctx = example_context
      and fw = example_framework, OF a]
  have "?q ''children'' = None" by (simp add: SelectListbox_props_lookup)
  moreover have "?q ''state'' = Some (VState example_state)"
    using t by (simp add: example_context_def)
  moreover have "?q ''asChild'' = None" by (simp add: SelectListbox_props_lookup)
  ultimately obtain r where "ListboxRoot example_framework ''cl-0'' ?q = Inr r"
    using ListboxRoot_Inr_ex [where ?props0.0 = ?q and fw = example_framework and uid = "''cl-0''"]
    by blast
  then have r: "SelectListbox example_context example_framework ''cl-0'' ?p = Inr r"
    by (simp add: SelectListbox_def)
  have "access example_framework v = v" for v by (simp add: example_framework_def)
  with t r show ?thesis
    by (auto simp add: example_context_def)
qed

text \<open>
  C4 as stated fails: the remaining props are spread after the attributes, so a props
  object that carries these keys itself replaces the context's list state, the
  context's \<open>isVirtualized\<close> and \<open>autoFocus\<close>, and both flags.
\<close>

theorem SelectListbox_listbox_props_counterexample:
  "(case SelectListbox example_context example_framework ''cl-0''
           (Map.empty(''state'' \<mapsto>
                        VState \<lparr> collection = [''z''],
                                 selectionManager = \<lparr> selectionMode = ''single'' \<rparr> \<rparr>,
                      ''isVirtualized'' \<mapsto> VBool True,
                      ''autoFocus'' \<mapsto> VBool False,
                      ''shouldSelectOnPressUp'' \<mapsto> VBool False,
                      ''shouldFocusOnHover'' \<mapsto> VBool False)) of
      Inl e \<Rightarrow> False
    | Inr r \<Rightarrow>
        listState_c (context_value r) =
          VState \<lparr> collection = [''z''], selectionManager = \<lparr> selectionMode = ''single'' \<rparr> \<rparr>
        \<and> listState_s example_context \<noteq>
          \<lparr> collection = [''z''], selectionManager = \<lparr> selectionMode = ''single'' \<rparr> \<rparr>
        \<and> isVirtualized_c (context_value r) = Some (VBool True)
        \<and> isVirtualized_s example_context = None
        \<and> autoFocus (selectableWith r) = Some (VBool False)
        \<and> autoFocus_s example_context = Some (VStr ''first'')
        \<and> shouldSelectOnPressUp (context_value r) = Some (VBool False)
        \<and> shouldFocusOnHover (context_value r) = Some (VBool False))"
proof -
  let ?s = "\<lparr> collection = [''z''], selectionManager = \<lparr> selectionMode = ''single'' \<rparr> \<rparr>"
  let ?p = "Map.empty(''state'' \<mapsto> VState ?s, ''isVirtualized'' \<mapsto> VBool True,
                      ''autoFocus'' \<mapsto> VBool False, ''shouldSelectOnPressUp'' \<mapsto> VBool False,
                      ''shouldFocusOnHover'' \<mapsto> VBool False) :: (string, string list) props"
  let ?q = "SelectListbox_props example_context example_framework ?p"
  have q: "?q ''state'' = Some (VState ?s)" "?q ''isVirtualized'' = Some (VBool True)"
    "?q ''autoFocus'' = Some (VBool False)" "?q ''shouldSelectOnPressUp'' = Some (VBool False)"
    "?q ''shouldFocusOnHover'' = Some (VBool False)" "?q ''children'' = None"
    "?q ''asChild'' = None"
    by (simp_all add: SelectListbox_props_lookup)
  obtain r where r: "ListboxRoot example_framework ''cl-0'' ?q = Inr r"
    using ListboxRoot_Inr_ex [where ?props0.0 = ?q and fw = example_framework and uid = "''cl-0''"]
      q(1,6,7) by blast
  have "access example_framework v = v" for v by (simp add: example_framework_def)
  with ListboxRoot_given_state [where q = ?q, OF q(1) r] ListboxRoot_flags [where q = ?q, OF r]
  have "listState_c (context_value r) = VState ?s"
    "isVirtualized_c (context_value r) = Some (VBool True)"
    "autoFocus (selectableWith r) = Some (VBool False)"
    "shouldSelectOnPressUp (context_value r) = Some (VBool False)"
    "shouldFocusOnHover (context_value r) = Some (VBool False)"
    by (simp_all add: q)
  moreover have "listState_s example_context \<noteq> ?s" "isVirtualized_s example_context = None"
    "autoFocus_s example_context = Some (VStr ''first'')"
    by (simp_all add: example_context_def example_state_def)
  ultimately show ?thesis
    using r by (simp add: SelectListbox_def)
qed

section \<open>Registration of the listbox id\<close>

lemma step_Run:
  "step ctx m (Run props0) =
     \<lparr> listboxId = fst (SelectListbox_split ctx props0) ''id'', cleanups = [\<lambda>r. None] \<rparr>"
  by (simp add: effect_def run_cleanups_def registerListboxId_def case_prod_beta)

lemma run_cleanups_after_Run: "listboxId (run_cleanups (step ctx m (Run props0))) = None"
  unfolding step_Run by (simp add: run_cleanups_def)

lemma run_cleanups_unmounted: "listboxId (run_cleanups unmounted) = None"
  by (simp add: run_cleanups_def unmounted_def)

lemma cleaned_after_runs:
  "listboxId (run_cleanups (foldl (step ctx) unmounted (map Run ps))) = None"
proof (cases ps rule: rev_cases)
  case Nil
  then show ?thesis by (simp add: run_cleanups_unmounted)
next
  case (snoc qs p)
  then show ?thesis by (simp add: run_cleanups_after_Run del: step.simps)
qed

lemma SelectListbox_rendered_id:
  assumes "SelectListbox ctx fw uid props0 = Inr r"
  shows "element r ''id'' = fst (SelectListbox_split ctx props0) ''id''"
proof -
  let ?q = "SelectListbox_props ctx fw props0"
  from assms have r: "ListboxRoot fw uid ?q = Inr r" by (simp add: SelectListbox_def)
  from element_lookup [OF r] obtain ls where
    e: "\<And>k. element r k =
          (case ListboxRoot_others uid ?q k of
             Some v \<Rightarrow> Some v
           | None \<Rightarrow> rootAttrs fw (ListboxRoot_local uid ?q) ls
                       (createSelectableList fw (selectableWith r)) k)"
    by blast
  show ?thesis
    by (simp add: e others_passed SelectListbox_props_lookup SelectListbox_local_id)
qed

text \<open>
  C9. After the effect has run for the current props (at mount, or again after any
  number of id changes), the id registered with the select context is the id
  \<open>SelectListbox\<close> renders: the \<open>id\<close> prop, or the context's \<open>generateId("listbox")\<close> when
  there is none. Before each re-run of the effect and after the component is disposed
  the cleanup has removed the registration, so no earlier id stays registered.
\<close>

theorem SelectListbox_registered_id:
  fixes props :: "('o, 'c) props"
  shows "listboxId (foldl (step ctx) unmounted (map Run (ps @ [props]))) =
      Some (case props ''id'' of Some v \<Rightarrow> v | None \<Rightarrow> VStr (generateId_s ctx ''listbox''))
    \<and> (\<forall>fw uid r. SelectListbox ctx fw uid props = Inr r \<longrightarrow>
          element r ''id'' = listboxId (foldl (step ctx) unmounted (map Run (ps @ [props]))))
    \<and> listboxId (run_cleanups (foldl (step ctx) unmounted (map Run ps))) = None
    \<and> listboxId (foldl (step ctx) unmounted (map Run ps @ [Dispose])) = None"
proof -
  have reg: "listboxId (foldl (step ctx) unmounted (map Run (ps @ [props]))) =
      fst (SelectListbox_split ctx props) ''id''"
    by (simp add: step_Run del: step.simps)
  then have "listboxId (foldl (step ctx) unmounted (map Run (ps @ [props]))) =
      Some (case props ''id'' of Some v \<Rightarrow> v | None \<Rightarrow> VStr (generateId_s ctx ''listbox''))"
    by (simp add: SelectListbox_local_id)
  moreover have "element r ''id'' = listboxId (foldl (step ctx) unmounted (map Run (ps @ [props])))"
    if "SelectListbox ctx fw uid props = Inr r" for fw uid r
    using SelectListbox_rendered_id [OF that] reg by simp
  moreover have "listboxId (foldl (step ctx) unmounted (map Run ps @ [Dispose])) = None"
    using cleaned_after_runs [of ctx ps] by simp
  ultimately show ?thesis
    using cleaned_after_runs [of ctx ps] by blast
qed

theorem SelectListbox_registered_id_witness:
  "\<exists>r. SelectListbox example_context example_framework ''cl-0'' Map.empty = Inr r
     \<and> element r ''id'' = Some (VStr ''select-1-listbox'')
     \<and> listboxId (foldl (step example_context) unmounted
          [Run (Map.empty(''id'' \<mapsto> VStr ''first'')), Run Map.empty]) =
         Some (VStr ''select-1-listbox'')
     \<and> listboxId (foldl (step example_context) unmounted
          [Run (Map.empty(''id'' \<mapsto> VStr ''first'')), Dispose]) = None"
proof -
  let ?p = "Map.empty :: (string, string list) props"
  let ?p1 = "Map.empty(''id'' \<mapsto> VStr ''first'') :: (string, string list) props"
  let ?q = "SelectListbox_props example_context example_framework ?p"
  have "?q ''children'' = None" "?q ''state'' = Some (VState example_state)"
    "?q ''asChild'' = None"
    by (simp_all add: SelectListbox_props_lookup example_context_def)
  then obtain r where "ListboxRoot example_framework ''cl-0'' ?q = Inr r"
    using ListboxRoot_Inr_ex [where ?props0.0 = ?q and fw = example_framework and uid = "''cl-0''"]
    by blast
  then have r: "SelectListbox example_context example_framework ''cl-0'' ?p = Inr r"
    by (simp add: SelectListbox_def)
  have g: "generateId_s example_context ''listbox'' = ''select-1-listbox''"
    by (simp add: example_context_def)
  from SelectListbox_registered_id [where props = ?p and ctx = example_context and ps = "[?p1]"]
    SelectListbox_registered_id [where props = ?p1 and ctx = example_context and ps = "[]"]
    r g
  show ?thesis by (auto simp del: step.simps)
qed

end
